theory Spec2Isabelle
  imports Complex_Main
begin

section \<open>Numbers of the JavaScript runtime\<close>

text \<open>
  Every number of \<^verbatim>\<open>kepler.js\<close> is a JavaScript number. A finite number is
  modelled by the real it denotes, with exact arithmetic (no rounding, no overflow);
  the three values that are not finite are kept, so that a division by zero, the
  square root of a negative number and arithmetic on a property that was never set
  give what the runtime gives. Zero carries no sign: a division by zero takes the
  sign of the numerator.
\<close>

datatype jsnum = Fin real | PInf | NInf | NaN

fun jneg :: "jsnum \<Rightarrow> jsnum" where
  "jneg (Fin x) = Fin (- x)"
| "jneg PInf = NInf"
| "jneg NInf = PInf"
| "jneg NaN = NaN"

fun jadd :: "jsnum \<Rightarrow> jsnum \<Rightarrow> jsnum" where
  "jadd (Fin x) (Fin y) = Fin (x + y)"
| "jadd NaN _ = NaN"
| "jadd _ NaN = NaN"
| "jadd PInf NInf = NaN"
| "jadd NInf PInf = NaN"
| "jadd PInf _ = PInf"
| "jadd _ PInf = PInf"
| "jadd NInf _ = NInf"
| "jadd _ NInf = NInf"

definition jsub :: "jsnum \<Rightarrow> jsnum \<Rightarrow> jsnum" where
  "jsub a b = jadd a (jneg b)"

fun jmul :: "jsnum \<Rightarrow> jsnum \<Rightarrow> jsnum" where
  "jmul (Fin x) (Fin y) = Fin (x * y)"
| "jmul NaN _ = NaN"
| "jmul _ NaN = NaN"
| "jmul (Fin x) PInf = (if x = 0 then NaN else if 0 < x then PInf else NInf)"
| "jmul (Fin x) NInf = (if x = 0 then NaN else if 0 < x then NInf else PInf)"
| "jmul PInf (Fin y) = (if y = 0 then NaN else if 0 < y then PInf else NInf)"
| "jmul NInf (Fin y) = (if y = 0 then NaN else if 0 < y then NInf else PInf)"
| "jmul PInf PInf = PInf"
| "jmul NInf NInf = PInf"
| "jmul PInf NInf = NInf"
| "jmul NInf PInf = NInf"

fun jdiv :: "jsnum \<Rightarrow> jsnum \<Rightarrow> jsnum" where
  "jdiv (Fin x) (Fin y) =
     (if y = 0 then (if x = 0 then NaN else if 0 < x then PInf else NInf)
      else Fin (x / y))"
| "jdiv NaN _ = NaN"
| "jdiv _ NaN = NaN"
| "jdiv (Fin x) PInf = Fin 0"
| "jdiv (Fin x) NInf = Fin 0"
| "jdiv PInf (Fin y) = (if y < 0 then NInf else PInf)"
| "jdiv NInf (Fin y) = (if y < 0 then PInf else NInf)"
| "jdiv PInf PInf = NaN"
| "jdiv PInf NInf = NaN"
| "jdiv NInf PInf = NaN"
| "jdiv NInf NInf = NaN"

text \<open>The comparison \<^verbatim>\<open>a > b\<close>: false as soon as one side is not a number.\<close>

fun jgt :: "jsnum \<Rightarrow> jsnum \<Rightarrow> bool" where
  "jgt (Fin x) (Fin y) = (y < x)"
| "jgt NaN _ = False"
| "jgt _ NaN = False"
| "jgt PInf PInf = False"
| "jgt PInf _ = True"
| "jgt _ PInf = False"
| "jgt NInf _ = False"
| "jgt _ NInf = True"

definition jlt :: "jsnum \<Rightarrow> jsnum \<Rightarrow> bool" where
  "jlt a b = jgt b a"

text \<open>The functions of \<^verbatim>\<open>Math\<close> that the program calls.\<close>

fun jsin :: "jsnum \<Rightarrow> jsnum" where
  "jsin (Fin x) = Fin (sin x)"
| "jsin _ = NaN"

fun jcos :: "jsnum \<Rightarrow> jsnum" where
  "jcos (Fin x) = Fin (cos x)"
| "jcos _ = NaN"

fun jfloor :: "jsnum \<Rightarrow> jsnum" where
  "jfloor (Fin x) = Fin (of_int \<lfloor>x\<rfloor>)"
| "jfloor a = a"

fun jacos :: "jsnum \<Rightarrow> jsnum" where
  "jacos (Fin x) = (if - 1 \<le> x \<and> x \<le> 1 then Fin (arccos x) else NaN)"
| "jacos _ = NaN"

definition atan2 :: "real \<Rightarrow> real \<Rightarrow> real" where
  "atan2 y x =
     (if 0 < x then arctan (y / x)
      else if x < 0 then (if 0 \<le> y then arctan (y / x) + pi else arctan (y / x) - pi)
      else if 0 < y then pi / 2 else if y < 0 then - (pi / 2) else 0)"

fun jatan2 :: "jsnum \<Rightarrow> jsnum \<Rightarrow> jsnum" where
  "jatan2 (Fin y) (Fin x) = Fin (atan2 y x)"
| "jatan2 NaN _ = NaN"
| "jatan2 _ NaN = NaN"
| "jatan2 (Fin y) PInf = Fin 0"
| "jatan2 (Fin y) NInf = (if 0 \<le> y then Fin pi else Fin (- pi))"
| "jatan2 PInf (Fin x) = Fin (pi / 2)"
| "jatan2 NInf (Fin x) = Fin (- (pi / 2))"
| "jatan2 PInf PInf = Fin (pi / 4)"
| "jatan2 PInf NInf = Fin (3 * pi / 4)"
| "jatan2 NInf PInf = Fin (- (pi / 4))"
| "jatan2 NInf NInf = Fin (- (3 * pi / 4))"

text \<open>
  Modelled from the spec: the methods \<^verbatim>\<open>square\<close>, \<^verbatim>\<open>cube\<close>, \<^verbatim>\<open>sqrt\<close> and
  \<^verbatim>\<open>abs\<close> that the program calls on numbers come from the external scalar
  primitives, which are not part of \<^verbatim>\<open>kepler.js\<close>; the spec names them as the
  square, the cube, the square root and the absolute value.
\<close>

definition square :: "jsnum \<Rightarrow> jsnum" where
  "square a = jmul a a"

definition cube :: "jsnum \<Rightarrow> jsnum" where
  "cube a = jmul (jmul a a) a"

fun jsqrt :: "jsnum \<Rightarrow> jsnum" where
  "jsqrt (Fin x) = (if x < 0 then NaN else Fin (sqrt x))"
| "jsqrt PInf = PInf"
| "jsqrt NInf = NaN"
| "jsqrt NaN = NaN"

fun jabs :: "jsnum \<Rightarrow> jsnum" where
  "jabs (Fin x) = Fin \<bar>x\<bar>"
| "jabs PInf = PInf"
| "jabs NInf = PInf"
| "jabs NaN = NaN"

text \<open>An arithmetic operator converts a property that is \<^verbatim>\<open>undefined\<close> to NaN.\<close>

fun to_number :: "jsnum option \<Rightarrow> jsnum" where
  "to_number None = NaN"
| "to_number (Some a) = a"

section \<open>The orbiting body\<close>

text \<open>
  The properties that \<^verbatim>\<open>kepler.js\<close> reads or writes on a body, besides the three
  given to the constructor. The names with Greek letters are spelled out:
  \<open>Mu\<close> is \<^verbatim>\<open>\<mu>\<close>, \<open>Epsilon\<close> is \<^verbatim>\<open>\<epsilon>\<close>, \<open>BigOmega\<close> is the capital
  and \<open>SmallOmega\<close> the small omega, \<open>Phi\<close> is \<^verbatim>\<open>\<phi>\<close>.
\<close>

datatype attr =
  R | V | Mu | Ek | Ep | Epsilon | I | BigOmega | L | H | A | B | Eccvec | Ecc | P | Et
| Ap | Pe | SmallOmega | Vt | M | Mt | N | Epoch | E | Phi

text \<open>
  A body: the constructor's \<^verbatim>\<open>rvec\<close>, \<^verbatim>\<open>vvec\<close> and \<^verbatim>\<open>mass\<close>, the eccentricity
  vector (the one derived property that holds a vector), and the numeric
  properties, each absent (\<^verbatim>\<open>undefined\<close>) until it is assigned. The type of
  vectors is the external vector library's and stays a parameter. \<open>calls\<close> is
  not a property of the object: it records, in order, every \<^verbatim>\<open>set_\<close> method
  that was entered, for the claims that count invocations.
\<close>

record 'v body =
  rvec :: 'v
  vvec :: 'v
  mass :: jsnum
  eccvec :: "'v option"
  num :: "attr \<rightharpoonup> jsnum"
  calls :: "attr list"

definition Kepler :: "'v \<Rightarrow> 'v \<Rightarrow> jsnum \<Rightarrow> 'v body" where
  "Kepler rv vv m =
     \<lparr>rvec = rv, vvec = vv, mass = m, eccvec = None, num = Map.empty, calls = []\<rparr>"

definition put :: "attr \<Rightarrow> jsnum \<Rightarrow> 'v body \<Rightarrow> 'v body" where
  "put a x b = b\<lparr>num := (num b)(a \<mapsto> x)\<rparr>"

definition rd :: "'v body \<Rightarrow> attr \<Rightarrow> jsnum" where
  "rd b a = to_number (num b a)"

section \<open>The anomaly pipeline\<close>

text \<open>
  \<^verbatim>\<open>eccAnom\<close>, lines 249 to 274. \<open>currentTick\<close> is the global
  \<^verbatim>\<open>Game.currentTick\<close>, and \<^verbatim>\<open>\<pi>\<close> the global constant of that name.
\<close>

definition mean_anomaly :: "jsnum \<Rightarrow> 'v body \<Rightarrow> jsnum" where
  "mean_anomaly currentTick b =
     jadd (rd b Mt) (jmul (rd b N) (jsub currentTick (rd b Epoch)))"

definition reduce_anomaly :: "jsnum \<Rightarrow> jsnum" where
  "reduce_anomaly m = jmul (jmul (Fin 2) (Fin pi)) (jsub m (jfloor m))"

definition initial_guess :: "jsnum \<Rightarrow> jsnum \<Rightarrow> jsnum" where
  "initial_guess eps m = (if jlt eps (Fin (8 / 10)) then m else Fin pi)"

text \<open>Line 265, the residual before the loop; line 269, the residual in the loop.\<close>

definition initial_residual :: "jsnum \<Rightarrow> jsnum \<Rightarrow> jsnum \<Rightarrow> jsnum" where
  "initial_residual eps m e = jsub (jsub e (jmul eps (jsin m))) m"

definition residual :: "jsnum \<Rightarrow> jsnum \<Rightarrow> jsnum \<Rightarrow> jsnum" where
  "residual eps m e = jsub (jsub e (jmul eps (jsin e))) m"

definition newton_step :: "jsnum \<Rightarrow> jsnum \<Rightarrow> jsnum \<Rightarrow> jsnum" where
  "newton_step eps e f = jsub e (jdiv f (jsub (Fin 1) (jmul eps (jcos e))))"

definition maxIter :: nat where
  "maxIter = 30"

text \<open>The while loop of lines 267 to 271, on the variables \<^verbatim>\<open>E\<close>, \<^verbatim>\<open>F\<close> and \<^verbatim>\<open>i\<close>.\<close>

function newton :: "jsnum \<Rightarrow> jsnum \<Rightarrow> jsnum \<Rightarrow> jsnum \<Rightarrow> nat \<Rightarrow> jsnum \<times> jsnum \<times> nat" where
  "newton eps m e f i =
     (if jgt (jabs f) (Fin (1 / 1000)) \<and> i < maxIter
      then newton eps m (newton_step eps e f) (residual eps m (newton_step eps e f)) (i + 1)
      else (e, f, i))"
  by pat_completeness auto
termination
  by (relation "measure (\<lambda>(eps, m, e, f, i). maxIter - i)") auto

declare newton.simps [simp del]

definition solve :: "jsnum \<Rightarrow> jsnum \<Rightarrow> jsnum \<times> jsnum \<times> nat" where
  "solve eps m =
     newton eps m (initial_guess eps m) (initial_residual eps m (initial_guess eps m)) 0"

definition eccAnom :: "jsnum \<Rightarrow> 'v body \<Rightarrow> 'v body" where
  "eccAnom currentTick b =
     (let K = jdiv (Fin pi) (Fin 180);
          b1 = put M (mean_anomaly currentTick b) b;
          b2 = put M (reduce_anomaly (rd b1 M)) b1;
          (e, f, i) = solve (rd b2 Epsilon) (rd b2 M)
      in put E (jdiv e K) b2)"

text \<open>\<^verbatim>\<open>TrueAnom\<close>, lines 279 to 285, and \<^verbatim>\<open>position\<close>, lines 290 to 293.\<close>

definition TrueAnom :: "'v body \<Rightarrow> 'v body" where
  "TrueAnom b =
     (let S = jsin (rd b E);
          C = jcos (rd b E);
          fak = jsqrt (jsub (Fin 1) (jmul (rd b Epsilon) (rd b Epsilon)))
      in put Phi (jdiv (jatan2 (jmul fak S) (jsub C (rd b Epsilon))) (Fin pi)) b)"

definition position :: "'v body \<Rightarrow> 'v body" where
  "position b = b"

section \<open>The external vector library\<close>

text \<open>
  The vector library is not part of \<^verbatim>\<open>kepler.js\<close>; what the program calls of it
  is a parameter of the model. \<open>length_of v\<close> is \<^verbatim>\<open>v.length()\<close>;
  \<open>cross_vec v w\<close> is the number that \<^verbatim>\<open>v.cross(w)\<close> is under the operator
  \<^verbatim>\<open>/\<close> (line 100); \<open>x_of v\<close> and \<open>y_of v\<close> are \<^verbatim>\<open>v.x\<close> and \<^verbatim>\<open>v.y\<close> as
  numbers. The three calls of line 168 can receive an operand that is
  \<^verbatim>\<open>undefined\<close>, where a library may throw: \<open>cross_num v s\<close> is
  \<^verbatim>\<open>v.cross(s)\<close>, \<open>divide v s\<close> is \<^verbatim>\<open>v.divide(s)\<close>, for a number \<open>s\<close> that is
  \<open>None\<close> when undefined, and \<open>subtract v w\<close> is \<^verbatim>\<open>v.subtract(w)\<close>.
\<close>

datatype error = TypeError string | LibraryError string

record 'v veclib =
  length_of :: "'v \<Rightarrow> jsnum"
  cross_vec :: "'v \<Rightarrow> 'v \<Rightarrow> jsnum"
  x_of :: "'v \<Rightarrow> jsnum"
  y_of :: "'v \<Rightarrow> jsnum"
  cross_num :: "'v \<Rightarrow> jsnum option \<Rightarrow> error + 'v"
  divide :: "'v \<Rightarrow> jsnum option \<Rightarrow> error + 'v"
  subtract :: "'v \<Rightarrow> 'v \<Rightarrow> error + 'v"

section \<open>Property names\<close>

text \<open>
  \<^verbatim>\<open>require\<close> receives property names as strings, reads \<^verbatim>\<open>this[name]\<close> and calls
  \<^verbatim>\<open>this['set_' + name]\<close>. \<open>attr_of\<close> decodes a name (Greek letters spelled
  out, as for \<open>attr\<close>).
\<close>

definition attr_names :: "(string \<times> attr) list" where
  "attr_names =
     [(''r'', R), (''v'', V), (''mu'', Mu), (''ek'', Ek), (''ep'', Ep),
      (''epsilon'', Epsilon), (''I'', I), (''Omega'', BigOmega), (''L'', L), (''h'', H),
      (''a'', A), (''b'', B), (''eccvec'', Eccvec), (''ecc'', Ecc), (''p'', P),
      (''Et'', Et), (''ap'', Ap), (''pe'', Pe), (''omega'', SmallOmega), (''vt'', Vt),
      (''M'', M), (''Mt'', Mt), (''n'', N), (''epoch'', Epoch), (''E'', E), (''phi'', Phi)]"

definition attr_of :: "string \<Rightarrow> attr option" where
  "attr_of p = map_of attr_names p"

text \<open>The properties set by the constructor, and the methods of \<^verbatim>\<open>Kepler.prototype\<close>.\<close>

definition primary_names :: "string list" where
  "primary_names = [''rvec'', ''vvec'', ''mass'']"

definition method_names :: "string list" where
  "method_names =
     [''set_r'', ''set_v'', ''set_mu'', ''set_ek'', ''set_ep'', ''set_epsilon'', ''set_I'',
      ''set_Omega'', ''set_L'', ''set_h'', ''set_a'', ''set_b'', ''set_eccvec'', ''set_ecc'',
      ''set_p'', ''set_Et'', ''set_ap'', ''set_pe'', ''set_omega'', ''set_vt'',
      ''eccAnom'', ''TrueAnom'', ''position'', ''require'']"

text \<open>
  \<^verbatim>\<open>Kepler.prototype\<close> is an object literal, so a body also inherits the members of
  the runtime's \<^verbatim>\<open>Object.prototype\<close>.
\<close>

definition object_members :: "string list" where
  "object_members =
     [''constructor'', ''toString'', ''toLocaleString'', ''valueOf'', ''hasOwnProperty'',
      ''isPrototypeOf'', ''propertyIsEnumerable'', ''__proto__'', ''__defineGetter__'',
      ''__defineSetter__'', ''__lookupGetter__'', ''__lookupSetter__'']"

definition defined :: "'v body \<Rightarrow> attr \<Rightarrow> bool" where
  "defined b a = (if a = Eccvec then eccvec b \<noteq> None else num b a \<noteq> None)"

text \<open>Line 302: \<^verbatim>\<open>typeof this[p] == 'undefined'\<close>.\<close>

definition is_undefined :: "'v body \<Rightarrow> string \<Rightarrow> bool" where
  "is_undefined b p =
     (case attr_of p of
        Some a \<Rightarrow> \<not> defined b a
      | None \<Rightarrow> p \<notin> set (primary_names @ method_names @ object_members))"

text \<open>The attributes that have a \<^verbatim>\<open>set_\<close> method.\<close>

definition has_rule :: "attr \<Rightarrow> bool" where
  "has_rule a = (a \<in> set [R, V, Mu, Ek, Ep, Epsilon, I, BigOmega, L, H, A, B, Eccvec, Ecc,
                            P, Et, Ap, Pe, SmallOmega, Vt])"

section \<open>The derivations\<close>

text \<open>
  Each method \<^verbatim>\<open>set_x\<close> is a call \<^verbatim>\<open>this.require([...])\<close> followed by one
  assignment \<^verbatim>\<open>this.x = ...\<close>. \<open>prereqs\<close> gives the argument of the call, and the
  empty list for the five methods that make no call (\<^verbatim>\<open>set_r\<close>, \<^verbatim>\<open>set_v\<close>,
  \<^verbatim>\<open>set_\<mu>\<close>, \<^verbatim>\<open>set_eccvec\<close>, \<^verbatim>\<open>set_vt\<close>), on which \<^verbatim>\<open>require\<close> does nothing.
\<close>

fun prereqs :: "attr \<Rightarrow> string list" where
  "prereqs Ek = [''v'']"
| "prereqs Ep = [''mu'', ''r'']"
| "prereqs Epsilon = [''ek'', ''ep'']"
| "prereqs I = [''r'']"
| "prereqs BigOmega = [''r'']"
| "prereqs L = [''I'', ''Omega'']"
| "prereqs H = [''L'', ''mu'']"
| "prereqs A = [''mu'', ''epsilon'']"
| "prereqs B = [''a'', ''ecc'']"
| "prereqs Ecc = [''epsilon'', ''h'', ''mu'']"
| "prereqs P = [''a'', ''mu'']"
| "prereqs Et = [''a'']"
| "prereqs Ap = [''ecc'', ''a'']"
| "prereqs Pe = [''ecc'', ''a'']"
| "prereqs SmallOmega = [''eccvec'']"
| "prereqs _ = []"

text \<open>
  A method called on a property that is \<^verbatim>\<open>undefined\<close> throws a TypeError; an
  arithmetic operator reads it as NaN (\<open>rd\<close>).
\<close>

definition receiver :: "'v body \<Rightarrow> attr \<Rightarrow> string \<Rightarrow> error + jsnum" where
  "receiver b a name =
     (case num b a of None \<Rightarrow> Inl (TypeError name) | Some x \<Rightarrow> Inr x)"

definition on :: "error + 'a \<Rightarrow> ('a \<Rightarrow> error + 'b) \<Rightarrow> error + 'b" where
  "on r f = (case r of Inl e \<Rightarrow> Inl e | Inr x \<Rightarrow> f x)"

text \<open>
  The right-hand sides of the assignments to numeric properties: \<^verbatim>\<open>set_r\<close> line
  19, \<^verbatim>\<open>set_v\<close> 29, \<^verbatim>\<open>set_\<mu>\<close> 40, \<^verbatim>\<open>set_ek\<close> 51, \<^verbatim>\<open>set_ep\<close> 63,
  \<^verbatim>\<open>set_\<epsilon>\<close> 75, \<^verbatim>\<open>set_I\<close> 87, \<^verbatim>\<open>set_\<Omega>\<close> 100, \<^verbatim>\<open>set_L\<close> 112,
  \<^verbatim>\<open>set_h\<close> 124, \<^verbatim>\<open>set_a\<close> 137, \<^verbatim>\<open>set_b\<close> 150 to 154, \<^verbatim>\<open>set_ecc\<close> 181,
  \<^verbatim>\<open>set_p\<close> 194, \<^verbatim>\<open>set_Et\<close> 208, \<^verbatim>\<open>set_ap\<close> 214, \<^verbatim>\<open>set_pe\<close> 219,
  \<^verbatim>\<open>set_\<omega>\<close> 230, \<^verbatim>\<open>set_vt\<close> 242. The last equation is for the attributes
  that have no such method; \<open>set_attr\<close> never reaches it.
\<close>

fun formula :: "'v veclib \<Rightarrow> attr \<Rightarrow> 'v body \<Rightarrow> error + jsnum" where
  "formula lib R b = Inr (length_of lib (rvec b))"
| "formula lib V b = Inr (length_of lib (vvec b))"
| "formula lib Mu b = Inr (Fin 398600)"
| "formula lib Ek b = on (receiver b V ''v'') (\<lambda>v. Inr (jdiv (square v) (Fin 2)))"
| "formula lib Ep b = Inr (jdiv (jneg (rd b Mu)) (rd b R))"
| "formula lib Epsilon b = Inr (jadd (rd b Ek) (rd b Ep))"
| "formula lib I b = on (receiver b R ''r'') (\<lambda>r. Inr (jmul (mass b) (square r)))"
| "formula lib BigOmega b =
     on (receiver b R ''r'') (\<lambda>r. Inr (jdiv (cross_vec lib (rvec b) (vvec b)) (square r)))"
| "formula lib L b = Inr (jmul (rd b I) (rd b BigOmega))"
| "formula lib H b = Inr (jdiv (rd b L) (mass b))"
| "formula lib A b = Inr (jdiv (jneg (rd b Mu)) (jmul (Fin 2) (rd b Epsilon)))"
| "formula lib B b =
     (if jgt (rd b Ecc) (Fin 1)
      then on (receiver b Ecc ''ecc'')
             (\<lambda>ecc. Inr (jmul (rd b A) (jsqrt (jsub (square ecc) (Fin 1)))))
      else on (receiver b Ecc ''ecc'')
             (\<lambda>ecc. Inr (jmul (rd b A) (jsqrt (jsub (Fin 1) (square ecc))))))"
| "formula lib Ecc b =
     on (receiver b H ''h'') (\<lambda>h.
     on (receiver b Mu ''mu'') (\<lambda>mu.
       Inr (jsqrt (jadd (Fin 1)
              (jdiv (jmul (jmul (Fin 2) (rd b Epsilon)) (square h)) (square mu))))))"
| "formula lib P b =
     on (receiver b A ''a'') (\<lambda>a.
       Inr (jmul (jmul (Fin 2) (Fin pi)) (jsqrt (jdiv (cube a) (rd b Mu)))))"
| "formula lib Et b = Inr (jacos (jdiv (x_of lib (rvec b)) (rd b A)))"
| "formula lib Ap b = Inr (jmul (jadd (Fin 1) (rd b Ecc)) (rd b A))"
| "formula lib Pe b = Inr (jmul (jsub (Fin 1) (rd b Ecc)) (rd b A))"
| "formula lib SmallOmega b =
     (case eccvec b of
        None \<Rightarrow> Inl (TypeError ''eccvec'')
      | Some ev \<Rightarrow> Inr (jatan2 (y_of lib ev) (x_of lib ev)))"
| "formula lib Vt b = Inr (jatan2 (y_of lib (rvec b)) (x_of lib (rvec b)))"
| "formula lib _ b = Inl (TypeError ''not a function'')"

text \<open>Line 168, the right-hand side of the assignment to \<^verbatim>\<open>eccvec\<close>.\<close>

definition eccvec_formula :: "'v veclib \<Rightarrow> 'v body \<Rightarrow> error + 'v" where
  "eccvec_formula lib b =
     on (cross_num lib (vvec b) (num b H)) (\<lambda>c.
     on (divide lib c (num b Mu)) (\<lambda>d.
     on (divide lib (rvec b) (num b R)) (\<lambda>q.
       subtract lib d q)))"

text \<open>
  What a call returns: normally, or by an exception. The object keeps what was
  assigned before the exception.
\<close>

datatype 'v outcome = Done "'v body" | Thrown error "'v body"

fun state_of :: "'v outcome \<Rightarrow> 'v body" where
  "state_of (Done b) = b"
| "state_of (Thrown e b) = b"

definition assign :: "'v veclib \<Rightarrow> attr \<Rightarrow> 'v body \<Rightarrow> 'v outcome" where
  "assign lib a b =
     (if a = Eccvec
      then (case eccvec_formula lib b of
              Inl e \<Rightarrow> Thrown e b
            | Inr v \<Rightarrow> Done (b\<lparr>eccvec := Some v\<rparr>))
      else (case formula lib a b of
              Inl e \<Rightarrow> Thrown e b
            | Inr x \<Rightarrow> Done (put a x b)))"

definition enter :: "attr \<Rightarrow> 'v body \<Rightarrow> 'v body" where
  "enter a b = b\<lparr>calls := calls b @ [a]\<rparr>"

text \<open>The depth of an attribute in the derivation graph; it measures the recursion.\<close>

fun rank :: "attr \<Rightarrow> nat" where
  "rank R = 1" | "rank V = 1" | "rank Mu = 1" | "rank Vt = 1" | "rank Eccvec = 1"
| "rank Ek = 2" | "rank Ep = 2" | "rank I = 2" | "rank BigOmega = 2" | "rank SmallOmega = 2"
| "rank Epsilon = 3" | "rank L = 3"
| "rank H = 4" | "rank A = 4"
| "rank Ecc = 5" | "rank P = 5" | "rank Et = 5"
| "rank B = 6" | "rank Ap = 6" | "rank Pe = 6"
| "rank _ = 0"

definition rank_of :: "string \<Rightarrow> nat" where
  "rank_of p = (case attr_of p of None \<Rightarrow> 0 | Some a \<Rightarrow> rank a)"

fun max_rank :: "string list \<Rightarrow> nat" where
  "max_rank [] = 0"
| "max_rank (p # ps) = max (rank_of p) (max_rank ps)"

text \<open>
  \<^verbatim>\<open>require\<close>, lines 300 to 306, and the call \<^verbatim>\<open>this['set_' + p]()\<close> that it makes:
  a TypeError when the body has no such method, the method \<^verbatim>\<open>set_x\<close> otherwise
  (\<open>set_attr\<close>, for the attribute \<open>x\<close>).
\<close>

function require :: "'v veclib \<Rightarrow> string list \<Rightarrow> 'v body \<Rightarrow> 'v outcome"
  and set_attr :: "'v veclib \<Rightarrow> attr \<Rightarrow> 'v body \<Rightarrow> 'v outcome" where
  "require lib [] b = Done b"
| "require lib (p # ps) b =
     (if is_undefined b p
      then (case attr_of p of
              None \<Rightarrow> Thrown (TypeError ''not a function'') b
            | Some a \<Rightarrow>
                (case set_attr lib a b of
                   Done b' \<Rightarrow> require lib ps b'
                 | Thrown e b' \<Rightarrow> Thrown e b'))
      else require lib ps b)"
| "set_attr lib a b =
     (if has_rule a
      then (case require lib (prereqs a) (enter a b) of
              Done b' \<Rightarrow> assign lib a b'
            | Thrown e b' \<Rightarrow> Thrown e b')
      else Thrown (TypeError ''not a function'') b)"
  by pat_completeness auto
termination
proof (relation "inv_image (less_than <*lex*> less_than)
    (\<lambda>x. case x of
       Inl (lib, ps, b) \<Rightarrow> (max_rank ps, Suc (length ps))
     | Inr (lib, a, b) \<Rightarrow> (rank a, 0))", goal_cases)
  case 1
  show ?case by (intro wf_inv_image wf_lex_prod wf_less_than)
next
  case (2 lib p ps b a)
  then show ?case by (auto simp: rank_of_def)
next
  case (3 lib p ps b a b')
  then show ?case by (auto simp: less_Suc_eq_le max_def)
next
  case (4 lib p ps b)
  then show ?case by (auto simp: less_Suc_eq_le max_def)
next
  case (5 lib a b)
  then have "max_rank (prereqs a) < rank a"
    by (cases a) (simp_all add: has_rule_def rank_of_def attr_of_def attr_names_def)
  then show ?case by simp
qed

declare set_attr.simps [simp del]

section \<open>Relations between the states of a body\<close>

text \<open>
  \<open>grows b b'\<close>: from \<open>b\<close> to \<open>b'\<close> the constructor's properties are the same,
  every property that had a value has kept it, and the record of calls was only
  extended. \<open>grows_but a b b'\<close> says so for every property other than \<open>a\<close>.
\<close>

definition grows :: "'v body \<Rightarrow> 'v body \<Rightarrow> bool" where
  "grows b b' =
     (rvec b' = rvec b \<and> vvec b' = vvec b \<and> mass b' = mass b
      \<and> (\<forall>k x. num b k = Some x \<longrightarrow> num b' k = Some x)
      \<and> (\<forall>v. eccvec b = Some v \<longrightarrow> eccvec b' = Some v)
      \<and> (\<exists>new. calls b' = calls b @ new))"

definition grows_but :: "attr \<Rightarrow> 'v body \<Rightarrow> 'v body \<Rightarrow> bool" where
  "grows_but a b b' =
     (rvec b' = rvec b \<and> vvec b' = vvec b \<and> mass b' = mass b
      \<and> (\<forall>k x. (k \<noteq> a \<or> a = Eccvec) \<longrightarrow> num b k = Some x \<longrightarrow> num b' k = Some x)
      \<and> (\<forall>v. a \<noteq> Eccvec \<longrightarrow> eccvec b = Some v \<longrightarrow> eccvec b' = Some v)
      \<and> (\<exists>new. calls b' = calls b @ new))"

section \<open>Concrete inputs\<close>

text \<open>
  Modelled from the spec: the vector primitives (length, cross product, division
  and subtraction by components) are external to \<^verbatim>\<open>kepler.js\<close>. This is one
  library, for the concrete inputs only: vectors of the plane, the cross product
  of two vectors a number, the cross product of a vector and a number a vector,
  and an operand that is \<^verbatim>\<open>undefined\<close> read as NaN, as the arithmetic operators
  of the runtime do. A theorem that does not name \<open>planar\<close> holds for every
  library.
\<close>

type_synonym vec2 = "jsnum \<times> jsnum"

definition planar :: "vec2 veclib" where
  "planar =
     \<lparr>length_of = (\<lambda>(x, y). jsqrt (jadd (square x) (square y))),
      cross_vec = (\<lambda>(x1, y1) (x2, y2). jsub (jmul x1 y2) (jmul y1 x2)),
      x_of = fst,
      y_of = snd,
      cross_num = (\<lambda>(x, y) s. Inr (jmul (to_number s) y, jneg (jmul (to_number s) x))),
      divide = (\<lambda>(x, y) s. Inr (jdiv x (to_number s), jdiv y (to_number s))),
      subtract = (\<lambda>(x1, y1) (x2, y2). Inr (jsub x1 x2, jsub y1 y2))\<rparr>"

text \<open>A body at \<open>(1, 0)\<close> with velocity \<open>(0, 1)\<close> and mass 1, freshly constructed.\<close>

definition fresh_body :: "vec2 body" where
  "fresh_body = Kepler (Fin 1, Fin 0) (Fin 0, Fin 1) (Fin 1)"

text \<open>The same body with epoch data set from outside, as \<^verbatim>\<open>eccAnom\<close> expects.\<close>

definition epoch_body :: "real \<Rightarrow> real \<Rightarrow> real \<Rightarrow> real \<Rightarrow> vec2 body" where
  "epoch_body mt n ep eps =
     put Mt (Fin mt) (put N (Fin n) (put Epoch (Fin ep) (put Epsilon (Fin eps) fresh_body)))"

text \<open>A body with the semi-major axis and the eccentricity of a hyperbolic orbit cached.\<close>

definition hyperbolic_body :: "vec2 body" where
  "hyperbolic_body = put A (Fin (- 10000)) (put Ecc (Fin (3 / 2)) fresh_body)"

text \<open>A body with a radius and an eccentricity vector stored.\<close>

definition derived_body :: "vec2 body" where
  "derived_body = put R (Fin 1) (fresh_body\<lparr>eccvec := Some (Fin 0, Fin 0)\<rparr>)"

section \<open>Histories of requests\<close>

text \<open>
  A sequence of \<^verbatim>\<open>require\<close> calls on one body, each made when the one before has
  returned; an exception ends the sequence.
\<close>

fun requests :: "'v veclib \<Rightarrow> string list list \<Rightarrow> 'v body \<Rightarrow> 'v outcome" where
  "requests lib [] b = Done b"
| "requests lib (ps # pss) b =
     (case require lib ps b of
        Done b' \<Rightarrow> requests lib pss b'
      | Thrown e b' \<Rightarrow> Thrown e b')"

text \<open>
  \<open>logged b\<close>: no method was entered twice, and each one that was entered has its
  attribute stored. \<open>delta b b' r new\<close>: from \<open>b\<close> to \<open>b'\<close> the methods \<open>new\<close>
  were entered, each once, each for an attribute of rank at most \<open>r\<close> that was
  undefined in \<open>b\<close> and is stored in \<open>b'\<close>.
\<close>

definition logged :: "'v body \<Rightarrow> bool" where
  "logged b = (distinct (calls b) \<and> (\<forall>c \<in> set (calls b). defined b c))"

definition delta :: "'v body \<Rightarrow> 'v body \<Rightarrow> nat \<Rightarrow> attr list \<Rightarrow> bool" where
  "delta b b' r new =
     (calls b' = calls b @ new \<and> distinct new
      \<and> (\<forall>c \<in> set new. \<not> defined b c \<and> defined b' c \<and> rank c \<le> r))"

text \<open>A name for which the body has no \<^verbatim>\<open>set_\<close> method.\<close>

definition no_rule :: "string \<Rightarrow> bool" where
  "no_rule p = (case attr_of p of None \<Rightarrow> True | Some a \<Rightarrow> \<not> has_rule a)"


section \<open>The derivation table of the spec\<close>

text \<open>
  The value that the table of section 4.2 of the spec gives to each numeric
  attribute, from the constructor's \<open>rvec\<close>, \<open>vvec\<close> and \<open>mass\<close> alone; the
  theorems compare the values that the methods store with it. The table is not
  followed for \<open>eccvec\<close> and the attribute \<open>\<omega>\<close> that is computed from it, nor
  for the attributes that have no rule: \<open>canon\<close> is NaN there, and \<open>proper\<close>
  leaves them out.
\<close>

function canon :: "'v veclib \<Rightarrow> 'v \<Rightarrow> 'v \<Rightarrow> jsnum \<Rightarrow> attr \<Rightarrow> jsnum" where
  "canon lib rv vv m R = length_of lib rv"
| "canon lib rv vv m V = length_of lib vv"
| "canon lib rv vv m Mu = Fin 398600"
| "canon lib rv vv m Ek = jdiv (square (canon lib rv vv m V)) (Fin 2)"
| "canon lib rv vv m Ep = jdiv (jneg (canon lib rv vv m Mu)) (canon lib rv vv m R)"
| "canon lib rv vv m Epsilon = jadd (canon lib rv vv m Ek) (canon lib rv vv m Ep)"
| "canon lib rv vv m I = jmul m (square (canon lib rv vv m R))"
| "canon lib rv vv m BigOmega = jdiv (cross_vec lib rv vv) (square (canon lib rv vv m R))"
| "canon lib rv vv m L = jmul (canon lib rv vv m I) (canon lib rv vv m BigOmega)"
| "canon lib rv vv m H = jdiv (canon lib rv vv m L) m"
| "canon lib rv vv m A =
     jdiv (jneg (canon lib rv vv m Mu)) (jmul (Fin 2) (canon lib rv vv m Epsilon))"
| "canon lib rv vv m Ecc =
     jsqrt (jadd (Fin 1)
       (jdiv (jmul (jmul (Fin 2) (canon lib rv vv m Epsilon)) (square (canon lib rv vv m H)))
          (square (canon lib rv vv m Mu))))"
| "canon lib rv vv m B =
     (if jgt (canon lib rv vv m Ecc) (Fin 1)
      then jmul (canon lib rv vv m A) (jsqrt (jsub (square (canon lib rv vv m Ecc)) (Fin 1)))
      else jmul (canon lib rv vv m A) (jsqrt (jsub (Fin 1) (square (canon lib rv vv m Ecc)))))"
| "canon lib rv vv m P =
     jmul (jmul (Fin 2) (Fin pi)) (jsqrt (jdiv (cube (canon lib rv vv m A)) (canon lib rv vv m Mu)))"
| "canon lib rv vv m Et = jacos (jdiv (x_of lib rv) (canon lib rv vv m A))"
| "canon lib rv vv m Ap = jmul (jadd (Fin 1) (canon lib rv vv m Ecc)) (canon lib rv vv m A)"
| "canon lib rv vv m Pe = jmul (jsub (Fin 1) (canon lib rv vv m Ecc)) (canon lib rv vv m A)"
| "canon lib rv vv m Vt = jatan2 (y_of lib rv) (x_of lib rv)"
| "canon lib rv vv m Eccvec = NaN"
| "canon lib rv vv m SmallOmega = NaN"
| "canon lib rv vv m M = NaN"
| "canon lib rv vv m Mt = NaN"
| "canon lib rv vv m N = NaN"
| "canon lib rv vv m Epoch = NaN"
| "canon lib rv vv m E = NaN"
| "canon lib rv vv m Phi = NaN"
  by pat_completeness auto
termination
  by (relation "measure (\<lambda>(lib, rv, vv, m, a). rank a)") auto

definition proper :: "attr \<Rightarrow> bool" where
  "proper a = (has_rule a \<and> a \<noteq> Eccvec \<and> a \<noteq> SmallOmega)"

text \<open>\<open>coherent lib b\<close>: every proper attribute stored on \<open>b\<close> has the table's value.\<close>

definition coherent :: "'v veclib \<Rightarrow> 'v body \<Rightarrow> bool" where
  "coherent lib b =
     (\<forall>a x. proper a \<longrightarrow> num b a = Some x \<longrightarrow> x = canon lib (rvec b) (vvec b) (mass b) a)"

section \<open>What a derivation leaves unchanged\<close>

lemma grows_refl: "grows b b" by (simp add: grows_def)
lemma grows_trans: "grows b b1 \<Longrightarrow> grows b1 b2 \<Longrightarrow> grows b b2"
  by (auto simp: grows_def)
lemma grows_imp_but: "grows b b' \<Longrightarrow> grows_but a b b'"
  by (auto simp: grows_def grows_but_def)
lemma grows_but_trans: "grows_but a b b1 \<Longrightarrow> grows_but a b1 b2 \<Longrightarrow> grows_but a b b2"
  unfolding grows_but_def
  apply (elim conjE exE)
  apply (intro conjI allI impI)
       apply simp_all
  done
lemma grows_but_undefined:
  assumes g: "grows_but a b b'" and u: "\<not> defined b a"
  shows "grows b b'"
proof -
  have n: "num b' k = Some x" if "num b k = Some x" for k x
  proof (cases "k \<noteq> a \<or> a = Eccvec")
    case True
    with g that show ?thesis unfolding grows_but_def by blast
  next
    case False
    with u that show ?thesis by (simp add: defined_def)
  qed
  have e: "eccvec b' = Some v" if "eccvec b = Some v" for v
  proof (cases "a = Eccvec")
    case True
    with u that show ?thesis by (simp add: defined_def)
  next
    case False
    with g that show ?thesis unfolding grows_but_def by blast
  qed
  from g n e show ?thesis unfolding grows_def grows_but_def by blast
qed

lemma grows_enter: "grows b (enter a b)" by (simp add: grows_def enter_def)

lemma assign_cases:
  "(\<exists>e. assign lib a b = Thrown e b) \<or> (a \<noteq> Eccvec \<and> (\<exists>x. assign lib a b = Done (put a x b)))
   \<or> (a = Eccvec \<and> (\<exists>v. assign lib a b = Done (b\<lparr>eccvec := Some v\<rparr>)))"
  by (auto simp: assign_def split: sum.splits)

lemma assign_grows_but: "grows_but a b (state_of (assign lib a b))"
  using assign_cases [of lib a b]
  by (auto simp: grows_but_def put_def)

lemma require_grows: "grows b (state_of (require lib ps b))"
  and set_attr_grows_but: "grows_but a b (state_of (set_attr lib a b))"
proof (induction lib ps b and lib a b rule: require_set_attr.induct)
  case (1 lib b)
  then show ?case by (simp add: grows_refl)
next
  case (2 lib p ps b)
  show ?case
  proof (cases "is_undefined b p")
    case False
    with 2 show ?thesis by simp
  next
    case u: True
    show ?thesis
    proof (cases "attr_of p")
      case None
      with u show ?thesis by (simp add: grows_refl)
    next
      case (Some a)
      with u have nd: "\<not> defined b a" by (simp add: is_undefined_def)
      have g1: "grows b (state_of (set_attr lib a b))"
        using "2.IH"(1) [OF u Some] nd by (rule grows_but_undefined)
      show ?thesis
      proof (cases "set_attr lib a b")
        case (Done b')
        with g1 "2.IH"(2) [OF u Some Done] u Some show ?thesis
          by (auto intro: grows_trans)
      next
        case (Thrown e b')
        with g1 u Some show ?thesis by simp
      qed
    qed
  qed
next
  case (3 lib a b)
  show ?case
  proof (cases "has_rule a")
    case False
    then show ?thesis by (simp add: set_attr.simps grows_imp_but grows_refl)
  next
    case hr: True
    have g0: "grows_but a b (state_of (require lib (prereqs a) (enter a b)))"
      using grows_trans [OF grows_enter "3.IH" [OF hr]] by (rule grows_imp_but)
    show ?thesis
    proof (cases "require lib (prereqs a) (enter a b)")
      case (Done b')
      with g0 assign_grows_but [of a b' lib] hr show ?thesis
        by (auto simp: set_attr.simps intro: grows_but_trans)
    next
      case (Thrown e b')
      with g0 hr show ?thesis by (simp add: set_attr.simps)
    qed
  qed
qed


section \<open>The Kepler solver\<close>

lemma newton_count: "i \<le> maxIter \<Longrightarrow> snd (snd (newton eps m e f i)) \<le> maxIter"
proof (induction eps m e f i rule: newton.induct)
  case (1 eps m e f i)
  show ?case
  proof (cases "jgt (jabs f) (Fin (1 / 1000)) \<and> i < maxIter")
    case True
    then have "newton eps m e f i =
        newton eps m (newton_step eps e f) (residual eps m (newton_step eps e f)) (i + 1)"
      by (subst newton.simps) simp
    moreover have "snd (snd (newton eps m (newton_step eps e f)
        (residual eps m (newton_step eps e f)) (i + 1))) \<le> maxIter"
      using True by (intro "1.IH") auto
    ultimately show ?thesis by simp
  next
    case False
    then have "newton eps m e f i = (e, f, i)" by (subst newton.simps) auto
    then show ?thesis using "1.prems" by simp
  qed
qed

lemma eccAnom_unfold:
  "eccAnom t b =
     put E (jdiv (fst (solve (rd b Epsilon) (reduce_anomaly (mean_anomaly t b))))
              (jdiv (Fin pi) (Fin 180)))
       (put M (reduce_anomaly (mean_anomaly t b)) b)"
  by (simp add: eccAnom_def Let_def put_def rd_def split: prod.splits)


lemma epoch_body_num:
  "num (epoch_body mt n ep eps) =
     [Epsilon \<mapsto> Fin eps, Epoch \<mapsto> Fin ep, N \<mapsto> Fin n, Mt \<mapsto> Fin mt]"
  by (simp add: epoch_body_def put_def fresh_body_def Kepler_def)

text \<open>
  C1. The solver's first residual, computed before any iteration, is claimed to be
  \<open>E0 - \<epsilon> sin E0 - M\<close> for every \<open>\<epsilon>\<close> and \<open>M\<close>. Line 265 takes the sine of \<open>M\<close>,
  not of \<open>E0\<close>, and \<open>E0\<close> is \<open>\<pi>\<close> from \<open>\<epsilon> = 0.8\<close> on. At \<open>\<epsilon> = \<pi>/2\<close> and
  \<open>M = \<pi>/2\<close> the first guess is \<open>\<pi>\<close>, the residual of line 265 is 0, so that the
  loop never runs and the solver returns \<open>\<pi>\<close> after 0 iterations, where the
  residual of the claim, the one the loop computes at line 269, is \<open>\<pi>/2\<close>.
\<close>

theorem first_residual_takes_sine_of_M:
  "initial_guess (Fin (pi / 2)) (Fin (pi / 2)) = Fin pi
   \<and> initial_residual (Fin (pi / 2)) (Fin (pi / 2)) (Fin pi) = Fin 0
   \<and> residual (Fin (pi / 2)) (Fin (pi / 2)) (Fin pi) = Fin (pi / 2)
   \<and> solve (Fin (pi / 2)) (Fin (pi / 2)) = (Fin pi, Fin 0, 0)"
proof -
  have "pi / 2 \<ge> 8 / 10" using pi_ge_two by simp
  then have g: "initial_guess (Fin (pi / 2)) (Fin (pi / 2)) = Fin pi"
    by (simp add: initial_guess_def jlt_def)
  have r: "initial_residual (Fin (pi / 2)) (Fin (pi / 2)) (Fin pi) = Fin 0"
    by (simp add: initial_residual_def jsub_def)
  show ?thesis
    by (simp add: solve_def g r newton.simps [of _ _ _ "Fin 0"] residual_def jsub_def)
qed

text \<open>
  C2. For every body and every tick, the Newton loop of \<^verbatim>\<open>eccAnom\<close> runs at most
  30 times and ends (\<open>newton\<close> is a total function, and the counter it returns is
  at most 30). Whether the tolerance was met or the cap was hit, the call reports
  nothing: all it leaves is the body, with the reduced mean anomaly in \<open>M\<close> and
  the last iterate, divided by \<open>\<pi>/180\<close>, in \<open>E\<close>.
\<close>

theorem eccAnom_at_most_30_iterations:
  "snd (snd (solve (rd b Epsilon) (reduce_anomaly (mean_anomaly currentTick b)))) \<le> 30
   \<and> eccAnom currentTick b =
       put E (jdiv (fst (solve (rd b Epsilon) (reduce_anomaly (mean_anomaly currentTick b))))
                (jdiv (Fin pi) (Fin 180)))
         (put M (reduce_anomaly (mean_anomaly currentTick b)) b)"
proof
  show "snd (snd (solve (rd b Epsilon) (reduce_anomaly (mean_anomaly currentTick b)))) \<le> 30"
    using newton_count [of 0] by (simp add: solve_def maxIter_def)
  show "eccAnom currentTick b =
       put E (jdiv (fst (solve (rd b Epsilon) (reduce_anomaly (mean_anomaly currentTick b))))
                (jdiv (Fin pi) (Fin 180)))
         (put M (reduce_anomaly (mean_anomaly currentTick b)) b)"
    by (rule eccAnom_unfold)
qed



section \<open>The resolver\<close>

lemmas name_defs = is_undefined_def attr_of_def attr_names_def primary_names_def
  method_names_def object_members_def

lemmas run_defs = name_defs defined_def set_attr.simps has_rule_def assign_def on_def
  receiver_def enter_def put_def rd_def planar_def square_def cube_def jsub_def
  eccvec_formula_def

lemma is_undefined_enter [simp]: "is_undefined (enter a b) p = is_undefined b p"
  by (simp add: is_undefined_def enter_def defined_def split: option.splits)

lemma num_enter [simp]: "num (enter a b) = num b"
  by (simp add: enter_def)

lemma rd_enter [simp]: "rd (enter a b) k = rd b k"
  by (simp add: rd_def)

lemma defined_enter [simp]: "defined (enter a b) c = defined b c"
  by (simp add: defined_def enter_def)

lemma calls_enter [simp]: "calls (enter a b) = calls b @ [a]"
  by (simp add: enter_def)

lemma require_single:
  "require lib [p] b =
     (if is_undefined b p
      then (case attr_of p of
              None \<Rightarrow> Thrown (TypeError ''not a function'') b
            | Some a \<Rightarrow> set_attr lib a b)
      else Done b)"
  by (simp split: option.splits outcome.splits)

lemma grows_defined: "grows b b' \<Longrightarrow> defined b a \<Longrightarrow> defined b' a"
  by (auto simp: grows_def defined_def)

lemma grows_is_undefined: "grows b b' \<Longrightarrow> \<not> is_undefined b p \<Longrightarrow> \<not> is_undefined b' p"
  by (auto simp: is_undefined_def dest: grows_defined split: option.splits)

lemma assign_defines: "assign lib a b = Done b' \<Longrightarrow> defined b' a"
  using assign_cases [of lib a b] by (auto simp: defined_def put_def)

lemma set_attr_defines: "set_attr lib a b = Done b' \<Longrightarrow> defined b' a"
  by (auto simp: set_attr.simps assign_defines split: if_splits outcome.splits)

lemma require_defines: "require lib ps b = Done b' \<Longrightarrow> p \<in> set ps \<Longrightarrow> \<not> is_undefined b' p"
proof (induction ps arbitrary: b)
  case Nil
  then show ?case by simp
next
  case (Cons q ps)
  show ?case
  proof (cases "is_undefined b q")
    case False
    with Cons.prems have r: "require lib ps b = Done b'" by simp
    show ?thesis
    proof (cases "p = q")
      case True
      from require_grows [of b lib ps] r have "grows b b'" by simp
      with False True show ?thesis by (auto dest: grows_is_undefined)
    next
      case False
      with Cons.prems r Cons.IH show ?thesis by auto
    qed
  next
    case u: True
    with Cons.prems obtain a b1 where a: "attr_of q = Some a"
      and s: "set_attr lib a b = Done b1" and r: "require lib ps b1 = Done b'"
      by (auto split: option.splits outcome.splits)
    show ?thesis
    proof (cases "p = q")
      case True
      from set_attr_defines [OF s] a have "\<not> is_undefined b1 q" by (simp add: is_undefined_def)
      moreover from require_grows [of b1 lib ps] r have "grows b1 b'" by simp
      ultimately show ?thesis using True by (auto dest: grows_is_undefined)
    next
      case False
      with Cons.prems r Cons.IH show ?thesis by auto
    qed
  qed
qed

lemma require_all_defined: "\<forall>p \<in> set ps. \<not> is_undefined b p \<Longrightarrow> require lib ps b = Done b"
  by (induction ps) simp_all

lemma require_again: "require lib ps b = Done b' \<Longrightarrow> require lib ps b' = Done b'"
  by (intro require_all_defined ballI) (rule require_defines)

lemma prereqs_rank: "has_rule a \<Longrightarrow> max_rank (prereqs a) < rank a"
  by (cases a) (simp_all add: has_rule_def rank_of_def attr_of_def attr_names_def)

lemma grows_but_defined: "grows_but a b b' \<Longrightarrow> c \<noteq> a \<Longrightarrow> defined b c \<Longrightarrow> defined b' c"
  by (auto simp: grows_but_def defined_def split: if_splits)

lemma assign_calls: "calls (state_of (assign lib a b)) = calls b"
  using assign_cases [of lib a b] by (auto simp: put_def)

lemma delta_refl: "delta b b r []"
  by (simp add: delta_def)

lemma delta_mono: "delta b b' r new \<Longrightarrow> r \<le> r' \<Longrightarrow> delta b b' r' new"
  by (auto simp: delta_def)

lemma delta_trans:
  assumes d1: "delta b b1 r new1" and d2: "delta b1 b2 r new2"
    and g1: "grows b b1" and g2: "grows b1 b2"
  shows "delta b b2 r (new1 @ new2)"
proof -
  have "set new1 \<inter> set new2 = {}" using d1 d2 by (auto simp: delta_def)
  moreover have "defined b2 c" if "c \<in> set new1" for c
    using that d1 g2 by (auto simp: delta_def dest: grows_defined)
  moreover have "\<not> defined b c" if "c \<in> set new2" for c
    using that d2 g1 by (auto simp: delta_def dest: grows_defined)
  ultimately show ?thesis using d1 d2 by (auto simp: delta_def)
qed

lemma require_delta: "require lib ps b = Done b' \<Longrightarrow> \<exists>new. delta b b' (max_rank ps) new"
  and set_attr_delta:
    "set_attr lib a b = Done b' \<Longrightarrow> \<not> defined b a \<Longrightarrow> \<exists>new. delta b b' (rank a) new"
proof (induction lib ps b and lib a b arbitrary: b' and b' rule: require_set_attr.induct)
  case (1 lib b)
  then show ?case by (auto intro: delta_refl)
next
  case (2 lib p ps b)
  show ?case
  proof (cases "is_undefined b p")
    case False
    with "2.prems" have "require lib ps b = Done b'" by simp
    from "2.IH"(3) [OF False this] obtain new where "delta b b' (max_rank ps) new" by blast
    then have "delta b b' (max_rank (p # ps)) new" by (rule delta_mono) simp
    then show ?thesis by blast
  next
    case u: True
    with "2.prems" obtain a b1 where a: "attr_of p = Some a"
      and s: "set_attr lib a b = Done b1" and r: "require lib ps b1 = Done b'"
      by (auto split: option.splits outcome.splits)
    from u a have nd: "\<not> defined b a" by (simp add: is_undefined_def)
    from "2.IH"(1) [OF u a s nd] obtain new1 where d1: "delta b b1 (rank a) new1" by blast
    from "2.IH"(2) [OF u a s r] obtain new2 where d2: "delta b1 b' (max_rank ps) new2" by blast
    have g1: "grows b b1"
      using set_attr_grows_but [of a b lib] s nd by (auto intro: grows_but_undefined)
    have g2: "grows b1 b'" using require_grows [of b1 lib ps] r by simp
    have "rank a \<le> max_rank (p # ps)" using a by (simp add: rank_of_def)
    with d1 d2 have "delta b b1 (max_rank (p # ps)) new1" "delta b1 b' (max_rank (p # ps)) new2"
      by (auto intro: delta_mono)
    from delta_trans [OF this g1 g2] show ?thesis by blast
  qed
next
  case (3 lib a b)
  from "3.prems"(1) have hr: "has_rule a"
    by (auto simp: set_attr.simps split: if_splits)
  with "3.prems"(1) obtain b1 where r: "require lib (prereqs a) (enter a b) = Done b1"
    and as: "assign lib a b1 = Done b'"
    by (auto simp: set_attr.simps split: outcome.splits)
  from "3.IH" [OF hr r] obtain new1 where d1: "delta (enter a b) b1 (max_rank (prereqs a)) new1"
    by blast
  have c': "calls b' = calls b1" using assign_calls [of lib a b1] as by simp
  have lt: "rank c < rank a" if "c \<in> set new1" for c
    using that d1 prereqs_rank [OF hr] by (auto simp: delta_def)
  then have "a \<notin> set new1" by auto
  moreover have "defined b' c" if "c \<in> set new1" for c
  proof -
    from that lt have "c \<noteq> a" by auto
    moreover from that d1 have "defined b1 c" by (simp add: delta_def)
    ultimately show ?thesis
      using assign_grows_but [of a b1 lib] as by (auto dest: grows_but_defined)
  qed
  moreover have "defined b' a" using as by (rule assign_defines)
  ultimately have "delta b b' (rank a) (a # new1)"
    using d1 c' "3.prems"(2) lt by (auto simp: delta_def less_imp_le)
  then show ?case by blast
qed

lemma logged_step:
  assumes l: "logged b" and d: "delta b b' r new" and g: "grows b b'"
  shows "logged b'"
proof -
  have "set (calls b) \<inter> set new = {}" using l d by (auto simp: logged_def delta_def)
  moreover have "defined b' c" if "c \<in> set (calls b)" for c
    using that l g by (auto simp: logged_def dest: grows_defined)
  ultimately show ?thesis using l d by (auto simp: logged_def delta_def)
qed

lemma require_logged: "logged b \<Longrightarrow> require lib ps b = Done b' \<Longrightarrow> logged b'"
  using require_delta [of lib ps b b'] require_grows [of b lib ps]
  by (auto intro: logged_step)

lemma requests_logged: "logged b \<Longrightarrow> requests lib pss b = Done b' \<Longrightarrow> logged b'"
  by (induction pss arbitrary: b) (auto split: outcome.splits dest: require_logged)

lemma logged_Kepler: "logged (Kepler rv vv m)"
  by (simp add: logged_def Kepler_def)

lemma assign_num_other: "k \<noteq> a \<Longrightarrow> num (state_of (assign lib a b)) k = num b k"
  using assign_cases [of lib a b] by (auto simp: put_def)

lemma require_num_no_rule: "\<not> has_rule k \<Longrightarrow> num (state_of (require lib ps b)) k = num b k"
  and set_attr_num_no_rule: "\<not> has_rule k \<Longrightarrow> num (state_of (set_attr lib a b)) k = num b k"
proof (induction lib ps b and lib a b rule: require_set_attr.induct)
  case (1 lib b)
  then show ?case by simp
next
  case (2 lib p ps b)
  then show ?case
    by (auto split: option.splits outcome.splits)
next
  case (3 lib a b)
  show ?case
  proof (cases "has_rule a")
    case False
    then show ?thesis by (simp add: set_attr.simps)
  next
    case True
    with "3.prems" have "k \<noteq> a" by auto
    with True "3.IH" [OF True "3.prems"] show ?thesis
      by (cases "require lib (prereqs a) (enter a b)")
         (auto simp: set_attr.simps assign_num_other)
  qed
qed

lemma no_rule_stays_undefined:
  assumes "no_rule p" and "is_undefined b p"
  shows "is_undefined (state_of (set_attr lib a b)) p"
proof (cases "attr_of p")
  case None
  with assms show ?thesis by (simp add: is_undefined_def)
next
  case (Some k)
  with assms have nr: "\<not> has_rule k" by (simp add: no_rule_def)
  then have "k \<noteq> Eccvec" by (auto simp: has_rule_def)
  with Some assms(2) set_attr_num_no_rule [OF nr, of lib a b] show ?thesis
    by (simp add: is_undefined_def defined_def)
qed

lemma require_no_rule_first:
  "is_undefined b p \<Longrightarrow> no_rule p \<Longrightarrow> require lib (p # ps) b = Thrown (TypeError ''not a function'') b"
  by (simp add: no_rule_def set_attr.simps split: option.splits)

lemma require_no_rule_throws:
  "is_undefined b p \<Longrightarrow> no_rule p \<Longrightarrow> p \<in> set qs \<Longrightarrow> \<exists>e b'. require lib qs b = Thrown e b'"
proof (induction qs arbitrary: b)
  case Nil
  then show ?case by simp
next
  case (Cons q qs)
  show ?case
  proof (cases "q = p")
    case True
    with require_no_rule_first [OF Cons.prems(1,2), of lib qs] show ?thesis by blast
  next
    case qp: False
    show ?thesis
    proof (cases "is_undefined b q")
      case False
      with Cons qp show ?thesis by auto
    next
      case u: True
      show ?thesis
      proof (cases "attr_of q")
        case None
        with u show ?thesis by simp
      next
        case (Some a)
        show ?thesis
        proof (cases "set_attr lib a b")
          case (Done b1)
          with no_rule_stays_undefined [OF Cons.prems(2,1), of lib a] have "is_undefined b1 p" by simp
          from Cons.IH [OF this Cons.prems(2)] Cons.prems(3) qp u Some Done show ?thesis by auto
        next
          case (Thrown e b1)
          with u Some show ?thesis by simp
        qed
      qed
    qed
  qed
qed

lemma eccAnom_frame: "k \<noteq> M \<Longrightarrow> k \<noteq> E \<Longrightarrow> num (eccAnom t b) k = num b k"
  "eccvec (eccAnom t b) = eccvec b"
  by (simp_all add: eccAnom_unfold put_def)

lemma TrueAnom_frame: "k \<noteq> Phi \<Longrightarrow> num (TrueAnom b) k = num b k" "eccvec (TrueAnom b) = eccvec b"
  by (simp_all add: TrueAnom_def Let_def put_def)

section \<open>The claims about the resolver\<close>

text \<open>
  C5. The resolver is claimed to have every prerequisite of a formula in the cache
  when the formula runs, and in particular to compute and cache \<open>h\<close>, \<open>\<mu>\<close> and
  \<open>r\<close> before the formula of \<open>eccvec\<close> on a fresh body. \<^verbatim>\<open>set_eccvec\<close> makes no
  \<^verbatim>\<open>require\<close> call: on a fresh body, with any vector library, requesting
  \<open>eccvec\<close> enters \<^verbatim>\<open>set_eccvec\<close> and no other method, and leaves every numeric
  attribute, \<open>h\<close>, \<open>\<mu>\<close> and \<open>r\<close> among them, undefined, whether the formula
  returned or threw.
\<close>

theorem eccvec_without_prerequisites:
  "num (state_of (require lib [''eccvec''] (Kepler rv vv m))) = Map.empty
   \<and> calls (state_of (require lib [''eccvec''] (Kepler rv vv m))) = [Eccvec]"
proof -
  define b0 where "b0 = Kepler rv vv m"
  have u: "is_undefined b0 ''eccvec''" "attr_of ''eccvec'' = Some Eccvec"
    by (simp_all add: name_defs defined_def Kepler_def b0_def)
  have s: "set_attr lib Eccvec b0 = assign lib Eccvec (enter Eccvec b0)"
    by (simp add: set_attr.simps has_rule_def)
  have r: "require lib [''eccvec''] b0 = assign lib Eccvec (enter Eccvec b0)"
    using u by (simp only: require_single s option.case if_True)
  have e: "num (enter Eccvec b0) = Map.empty" "calls (enter Eccvec b0) = [Eccvec]"
    by (simp_all add: enter_def b0_def Kepler_def)
  show ?thesis
    unfolding b0_def [symmetric] r
    using assign_cases [of lib Eccvec "enter Eccvec b0"] e
    by auto
qed

text \<open>
  C6. Resolution is idempotent. When a request for \<open>x\<close> has returned, on any
  body, a second request for \<open>x\<close> returns the body as it is: the value of \<open>x\<close> is
  the same and no method is entered. And over the lifetime of a body, from its
  construction through any history of requests that returned, no \<^verbatim>\<open>set_\<close>
  method is entered twice.
\<close>

theorem resolution_idempotent:
  assumes "require lib [x] b = Done b1"
  shows "require lib [x] b1 = Done b1
         \<and> (requests lib pss (Kepler rv vv m) = Done b \<longrightarrow> distinct (calls b1))"
proof
  show "require lib [x] b1 = Done b1" using assms by (rule require_again)
  show "requests lib pss (Kepler rv vv m) = Done b \<longrightarrow> distinct (calls b1)"
  proof
    assume "requests lib pss (Kepler rv vv m) = Done b"
    with logged_Kepler have "logged b" by (rule requests_logged)
    then have "logged b1" using assms by (rule require_logged)
    then show "distinct (calls b1)" by (simp add: logged_def)
  qed
qed

theorem resolution_idempotent_witness:
  "requests planar [ [''ek''] ] fresh_body =
     Done (fresh_body\<lparr>num := [V \<mapsto> Fin 1, Ek \<mapsto> Fin (1 / 2)], calls := [Ek, V]\<rparr>)
   \<and> require planar [''epsilon'']
       (fresh_body\<lparr>num := [V \<mapsto> Fin 1, Ek \<mapsto> Fin (1 / 2)], calls := [Ek, V]\<rparr>) =
     Done (fresh_body\<lparr>num := [V \<mapsto> Fin 1, Ek \<mapsto> Fin (1 / 2), Mu \<mapsto> Fin 398600, R \<mapsto> Fin 1,
             Ep \<mapsto> Fin (- 398600), Epsilon \<mapsto> Fin (1 / 2 - 398600)],
           calls := [Ek, V, Epsilon, Ep, Mu, R]\<rparr>)
   \<and> require planar [''epsilon'']
       (fresh_body\<lparr>num := [V \<mapsto> Fin 1, Ek \<mapsto> Fin (1 / 2), Mu \<mapsto> Fin 398600, R \<mapsto> Fin 1,
             Ep \<mapsto> Fin (- 398600), Epsilon \<mapsto> Fin (1 / 2 - 398600)],
           calls := [Ek, V, Epsilon, Ep, Mu, R]\<rparr>) =
     Done (fresh_body\<lparr>num := [V \<mapsto> Fin 1, Ek \<mapsto> Fin (1 / 2), Mu \<mapsto> Fin 398600, R \<mapsto> Fin 1,
             Ep \<mapsto> Fin (- 398600), Epsilon \<mapsto> Fin (1 / 2 - 398600)],
           calls := [Ek, V, Epsilon, Ep, Mu, R]\<rparr>)
   \<and> distinct [Ek, V, Epsilon, Ep, Mu, R]"
proof -
  have h: "requests planar [ [''ek''] ] fresh_body =
     Done (fresh_body\<lparr>num := [V \<mapsto> Fin 1, Ek \<mapsto> Fin (1 / 2)], calls := [Ek, V]\<rparr>)"
    by (simp add: run_defs fresh_body_def Kepler_def)
  have r: "require planar [''epsilon'']
       (fresh_body\<lparr>num := [V \<mapsto> Fin 1, Ek \<mapsto> Fin (1 / 2)], calls := [Ek, V]\<rparr>) =
     Done (fresh_body\<lparr>num := [V \<mapsto> Fin 1, Ek \<mapsto> Fin (1 / 2), Mu \<mapsto> Fin 398600, R \<mapsto> Fin 1,
             Ep \<mapsto> Fin (- 398600), Epsilon \<mapsto> Fin (1 / 2 - 398600)],
           calls := [Ek, V, Epsilon, Ep, Mu, R]\<rparr>)"
    by (simp add: run_defs fresh_body_def Kepler_def)
  from resolution_idempotent [OF r, of "[ [''ek''] ]" "(Fin 1, Fin 0)" "(Fin 0, Fin 1)" "Fin 1"] h r
  show ?thesis by (simp add: fresh_body_def)
qed

text \<open>
  C7, as stated: once a derived attribute, \<open>M\<close>, \<open>E\<close> and \<open>\<phi>\<close> included, is
  stored, no operation changes it. \<^verbatim>\<open>eccAnom\<close> assigns \<open>M\<close> and \<open>E\<close> on every
  call: with \<open>Mt = 0\<close>, \<open>n = 1/4\<close>, \<open>epoch = 0\<close> and \<open>\<epsilon> = 0\<close>, the call at tick 0
  stores \<open>M = 0\<close> and \<open>E = 0\<close>, and the call at tick 1 replaces them by \<open>\<pi>/2\<close> and
  90.
\<close>

theorem eccAnom_overwrites_M_and_E:
  "num (eccAnom (Fin 0) (epoch_body 0 (1 / 4) 0 0)) M = Some (Fin 0)
   \<and> num (eccAnom (Fin 0) (epoch_body 0 (1 / 4) 0 0)) E = Some (Fin 0)
   \<and> num (eccAnom (Fin 1) (eccAnom (Fin 0) (epoch_body 0 (1 / 4) 0 0))) M = Some (Fin (pi / 2))
   \<and> num (eccAnom (Fin 1) (eccAnom (Fin 0) (epoch_body 0 (1 / 4) 0 0))) E = Some (Fin 90)"
proof -
  have m0: "mean_anomaly (Fin 0) (epoch_body 0 (1 / 4) 0 0) = Fin 0"
    by (simp add: mean_anomaly_def rd_def epoch_body_num jsub_def)
  have s0: "solve (Fin 0) (Fin m) = (Fin m, Fin 0, 0)" for m
    by (simp add: solve_def initial_guess_def jlt_def initial_residual_def jsub_def
        newton.simps [of _ _ _ "Fin 0"])
  have r0: "reduce_anomaly (Fin 0) = Fin 0" and r1: "reduce_anomaly (Fin (1 / 4)) = Fin (pi / 2)"
    by (simp_all add: reduce_anomaly_def jsub_def)
  have n1: "num (eccAnom (Fin 0) (epoch_body 0 (1 / 4) 0 0)) =
      [Epsilon \<mapsto> Fin 0, Epoch \<mapsto> Fin 0, N \<mapsto> Fin (1 / 4), Mt \<mapsto> Fin 0, M \<mapsto> Fin 0, E \<mapsto> Fin 0]"
    by (simp add: eccAnom_unfold m0 r0 rd_def epoch_body_num s0 put_def)
  have m1: "mean_anomaly (Fin 1) (eccAnom (Fin 0) (epoch_body 0 (1 / 4) 0 0)) = Fin (1 / 4)"
    by (simp add: mean_anomaly_def rd_def n1 jsub_def)
  show ?thesis
    by (simp add: eccAnom_unfold [of "Fin 1"] m1 r1 n1 rd_def s0 put_def)
qed

text \<open>
  C7, amended. A stored attribute is not changed by any \<^verbatim>\<open>require\<close> call; a
  \<^verbatim>\<open>set_\<close> method called directly changes no attribute but its own;
  \<^verbatim>\<open>eccAnom\<close> changes no attribute but \<open>M\<close> and \<open>E\<close>, which it assigns anew on
  every call; \<^verbatim>\<open>TrueAnom\<close> changes no attribute but \<open>\<phi>\<close>; \<^verbatim>\<open>position\<close> changes
  nothing.
\<close>

theorem stored_values_kept:
  "(num b k = Some x \<longrightarrow> num (state_of (require lib ps b)) k = Some x)
   \<and> (eccvec b = Some v \<longrightarrow> eccvec (state_of (require lib ps b)) = Some v)
   \<and> (k \<noteq> a \<longrightarrow> num b k = Some x \<longrightarrow> num (state_of (set_attr lib a b)) k = Some x)
   \<and> (a \<noteq> Eccvec \<longrightarrow> eccvec b = Some v \<longrightarrow> eccvec (state_of (set_attr lib a b)) = Some v)
   \<and> (k \<noteq> M \<longrightarrow> k \<noteq> E \<longrightarrow> num (eccAnom t b) k = num b k)
   \<and> eccvec (eccAnom t b) = eccvec b
   \<and> (k \<noteq> Phi \<longrightarrow> num (TrueAnom b) k = num b k)
   \<and> eccvec (TrueAnom b) = eccvec b
   \<and> position b = b"
  using require_grows [of b lib ps] set_attr_grows_but [of a b lib]
  by (simp add: grows_def grows_but_def eccAnom_frame TrueAnom_frame position_def)

theorem stored_values_kept_witness:
  "num derived_body R = Some (Fin 1)
   \<and> eccvec derived_body = Some (Fin 0, Fin 0)
   \<and> num (state_of (require planar [''v'', ''omega''] derived_body)) R = Some (Fin 1)
   \<and> eccvec (state_of (require planar [''v'', ''omega''] derived_body)) = Some (Fin 0, Fin 0)
   \<and> num (state_of (set_attr planar V derived_body)) R = Some (Fin 1)
   \<and> eccvec (state_of (set_attr planar V derived_body)) = Some (Fin 0, Fin 0)
   \<and> num (eccAnom (Fin 0) derived_body) R = Some (Fin 1)
   \<and> num (TrueAnom derived_body) R = Some (Fin 1)
   \<and> position derived_body = derived_body"
proof -
  have h: "num derived_body R = Some (Fin 1)" "eccvec derived_body = Some (Fin 0, Fin 0)"
    by (simp_all add: derived_body_def put_def)
  from stored_values_kept [of derived_body R "Fin 1" planar "[''v'', ''omega'']" "(Fin 0, Fin 0)"
      V "Fin 0"] h
  show ?thesis by simp
qed

text \<open>
  C8, as stated: a \<^verbatim>\<open>require\<close> call naming an attribute with neither a cached value
  nor a rule signals an error. \<open>position\<close> is no property of a fresh body and has
  no \<^verbatim>\<open>set_\<close> method, but \<^verbatim>\<open>this['position']\<close> is the method of that name, so
  line 302 does not find it undefined and the call returns without an error.
\<close>

theorem require_method_name_silent:
  "attr_of ''position'' = None \<and> no_rule ''position''
   \<and> num fresh_body = Map.empty \<and> eccvec fresh_body = None
   \<and> require planar [''position''] fresh_body = Done fresh_body"
  by (simp add: name_defs no_rule_def fresh_body_def Kepler_def)

text \<open>
  C8, amended. For every name that line 302 finds undefined (no stored value, and
  not the name of a member that the body inherits from its prototypes) and that
  has no \<^verbatim>\<open>set_\<close> method, a \<^verbatim>\<open>require\<close> call throws: the runtime's TypeError for
  calling what is not a function, at once and with the body unchanged when the
  name comes first, and some exception wherever the name stands in the list. No
  undefined value is produced silently.
\<close>

theorem require_missing_rule:
  assumes "is_undefined b p" and "no_rule p"
  shows "require lib (p # ps) b = Thrown (TypeError ''not a function'') b
         \<and> (p \<in> set qs \<longrightarrow> (\<exists>e b'. require lib qs b = Thrown e b'))"
  using require_no_rule_first [OF assms, of lib ps] require_no_rule_throws [OF assms, of qs lib]
  by blast

theorem require_missing_rule_witness:
  "is_undefined fresh_body ''M'' \<and> no_rule ''M''
   \<and> require planar [''M''] fresh_body = Thrown (TypeError ''not a function'') fresh_body
   \<and> ''M'' \<in> set [''r'', ''M'']
   \<and> require planar [''r'', ''M''] fresh_body =
       Thrown (TypeError ''not a function'') (fresh_body\<lparr>num := [R \<mapsto> Fin 1], calls := [R]\<rparr>)"
proof -
  have h: "is_undefined fresh_body ''M''" "no_rule ''M''"
    by (simp_all add: name_defs no_rule_def has_rule_def defined_def fresh_body_def Kepler_def)
  have "require planar [''r'', ''M''] fresh_body =
       Thrown (TypeError ''not a function'') (fresh_body\<lparr>num := [R \<mapsto> Fin 1], calls := [R]\<rparr>)"
    by (simp add: run_defs fresh_body_def Kepler_def)
  with h require_missing_rule [OF h, of planar "[]" "[''r'', ''M'']"] show ?thesis by simp
qed

section \<open>The semi-minor axis\<close>

lemma set_b_cached:
  assumes "num b A = Some a" and "num b Ecc = Some ecc"
  shows "set_attr lib B b =
           Done (put B (if jgt ecc (Fin 1)
                        then jmul a (jsqrt (jsub (square ecc) (Fin 1)))
                        else jmul a (jsqrt (jsub (Fin 1) (square ecc))))
                   (enter B b))"
proof -
  have "\<not> is_undefined (enter B b) ''a''" "\<not> is_undefined (enter B b) ''ecc''"
    using assms by (simp_all add: name_defs defined_def)
  then have "require lib (prereqs B) (enter B b) = Done (enter B b)"
    by simp
  then show ?thesis
    using assms
    by (simp add: set_attr.simps has_rule_def assign_def receiver_def on_def rd_def enter_def)
qed

lemma set_b_hyperbolic:
  "set_attr planar B hyperbolic_body =
     Done (put B (Fin (- 10000 * sqrt (5 / 4))) (enter B hyperbolic_body))"
  using set_b_cached [of hyperbolic_body "Fin (- 10000)" "Fin (3 / 2)" planar]
  by (simp add: hyperbolic_body_def put_def square_def jsub_def)

text \<open>
  C9, as stated: with \<open>ecc = 1.5\<close> and \<open>a = -10000\<close> cached, \<^verbatim>\<open>set_b\<close> takes the
  hyperbolic branch and \<open>b\<close> is a real, positive value. The branch is taken and
  the value is real, but it is \<open>a\<close> times a square root, and \<open>a\<close> is negative:
  \<open>b\<close> is not positive.
\<close>

theorem set_b_hyperbolic_not_positive:
  "\<not> (\<exists>x. num (state_of (set_attr planar B hyperbolic_body)) B = Some (Fin x) \<and> 0 < x)"
proof -
  have "- 10000 * sqrt (5 / 4) < 0" by simp
  then show ?thesis by (simp add: set_b_hyperbolic put_def)
qed

text \<open>
  C9, amended. On a body with \<open>a\<close> and \<open>ecc\<close> cached, \<^verbatim>\<open>set_b\<close> stores
  \<open>a \<surd>(ecc\<^sup>2 - 1)\<close> exactly when \<open>ecc > 1\<close>, and \<open>a \<surd>(1 - ecc\<^sup>2)\<close> otherwise. With
  \<open>ecc = 1.5\<close> and \<open>a = -10000\<close> the hyperbolic branch is taken and \<open>b\<close> is the
  real number \<open>-10000 \<surd>1.25\<close>, which is negative.
\<close>

theorem set_b_branches:
  assumes "num b A = Some a" and "num b Ecc = Some ecc"
  shows "set_attr lib B b =
           Done (put B (if jgt ecc (Fin 1)
                        then jmul a (jsqrt (jsub (square ecc) (Fin 1)))
                        else jmul a (jsqrt (jsub (Fin 1) (square ecc))))
                   (enter B b))"
  using assms by (rule set_b_cached)

theorem set_b_branches_witness:
  "num hyperbolic_body A = Some (Fin (- 10000))
   \<and> num hyperbolic_body Ecc = Some (Fin (3 / 2))
   \<and> jgt (Fin (3 / 2)) (Fin 1)
   \<and> set_attr planar B hyperbolic_body =
       Done (put B (Fin (- 10000 * sqrt (5 / 4))) (enter B hyperbolic_body))
   \<and> - 10000 * sqrt (5 / 4) < (0 :: real)"
proof -
  have h: "num hyperbolic_body A = Some (Fin (- 10000))"
    "num hyperbolic_body Ecc = Some (Fin (3 / 2))"
    by (simp_all add: hyperbolic_body_def put_def)
  from set_b_branches [OF h, of planar] h show ?thesis
    by (simp add: square_def jsub_def)
qed

section \<open>Independence of the order of requests\<close>

lemma coherent_rd:
  "coherent lib b \<Longrightarrow> proper k \<Longrightarrow> defined b k \<Longrightarrow>
     rd b k = canon lib (rvec b) (vvec b) (mass b) k
     \<and> receiver b k nm = Inr (canon lib (rvec b) (vvec b) (mass b) k)"
  by (auto simp: coherent_def defined_def rd_def receiver_def proper_def)

lemma prereq_defined:
  "\<not> is_undefined b ''v'' \<Longrightarrow> defined b V"
  "\<not> is_undefined b ''r'' \<Longrightarrow> defined b R"
  "\<not> is_undefined b ''mu'' \<Longrightarrow> defined b Mu"
  "\<not> is_undefined b ''ek'' \<Longrightarrow> defined b Ek"
  "\<not> is_undefined b ''ep'' \<Longrightarrow> defined b Ep"
  "\<not> is_undefined b ''epsilon'' \<Longrightarrow> defined b Epsilon"
  "\<not> is_undefined b ''I'' \<Longrightarrow> defined b I"
  "\<not> is_undefined b ''Omega'' \<Longrightarrow> defined b BigOmega"
  "\<not> is_undefined b ''L'' \<Longrightarrow> defined b L"
  "\<not> is_undefined b ''h'' \<Longrightarrow> defined b H"
  "\<not> is_undefined b ''a'' \<Longrightarrow> defined b A"
  "\<not> is_undefined b ''ecc'' \<Longrightarrow> defined b Ecc"
  by (simp_all add: name_defs)

lemma proper_simps:
  "proper R" "proper V" "proper Mu" "proper Ek" "proper Ep" "proper Epsilon" "proper I"
  "proper BigOmega" "proper L" "proper H" "proper A" "proper Ecc"
  by (simp_all add: proper_def has_rule_def)

lemma formula_canon:
  assumes p: "proper a" and c: "coherent lib b"
    and d: "\<forall>p \<in> set (prereqs a). \<not> is_undefined b p"
  shows "formula lib a b = Inr (canon lib (rvec b) (vvec b) (mass b) a)"
  using p d
  by (cases a)
     (simp_all add: proper_def has_rule_def on_def
        coherent_rd [OF c] prereq_defined proper_simps)

lemma coherent_enter [simp]: "coherent lib (enter a b) = coherent lib b"
  by (simp add: coherent_def enter_def)

lemma assign_coherent:
  assumes c: "coherent lib b" and d: "\<forall>p \<in> set (prereqs a). \<not> is_undefined b p"
  shows "coherent lib (state_of (assign lib a b))"
proof (cases "proper a")
  case True
  then have "a \<noteq> Eccvec" by (simp add: proper_def)
  with formula_canon [OF True c d] c show ?thesis
    by (auto simp: assign_def put_def coherent_def)
next
  case False
  then show ?thesis
    using c assign_cases [of lib a b]
    by (auto simp: coherent_def put_def split: if_splits)
qed

lemma require_coherent: "coherent lib b \<Longrightarrow> coherent lib (state_of (require lib ps b))"
  and set_attr_coherent: "coherent lib b \<Longrightarrow> coherent lib (state_of (set_attr lib a b))"
proof (induction lib ps b and lib a b rule: require_set_attr.induct)
  case (1 lib b)
  then show ?case by simp
next
  case (2 lib p ps b)
  then show ?case
    by (auto split: option.splits outcome.splits)
next
  case (3 lib a b)
  show ?case
  proof (cases "has_rule a")
    case False
    with "3.prems" show ?thesis by (simp add: set_attr.simps)
  next
    case hr: True
    from "3.IH" [OF hr] "3.prems"
    have c1: "coherent lib (state_of (require lib (prereqs a) (enter a b)))" by simp
    show ?thesis
    proof (cases "require lib (prereqs a) (enter a b)")
      case (Done b1)
      then have "\<forall>p \<in> set (prereqs a). \<not> is_undefined b1 p"
        by (auto dest: require_defines)
      with c1 Done hr show ?thesis
        by (simp add: set_attr.simps assign_coherent)
    next
      case (Thrown e b1)
      with c1 hr show ?thesis by (simp add: set_attr.simps)
    qed
  qed
qed

lemma requests_coherent: "coherent lib b \<Longrightarrow> coherent lib (state_of (requests lib pss b))"
proof (induction pss arbitrary: b)
  case Nil
  then show ?case by simp
next
  case (Cons ps pss)
  from require_coherent [OF Cons.prems, of ps] Cons.IH show ?case
    by (cases "require lib ps b") auto
qed

lemma requests_grows: "grows b (state_of (requests lib pss b))"
proof (induction pss arbitrary: b)
  case Nil
  then show ?case by (simp add: grows_refl)
next
  case (Cons ps pss)
  from require_grows [of b lib ps] Cons.IH show ?case
    by (cases "require lib ps b") (auto intro: grows_trans)
qed

lemma derived_value_canonical:
  assumes "proper a" and "num (state_of (requests lib pss (Kepler rv vv m))) a = Some x"
  shows "x = canon lib rv vv m a"
proof -
  have "coherent lib (Kepler rv vv m)" by (simp add: coherent_def Kepler_def)
  then have "coherent lib (state_of (requests lib pss (Kepler rv vv m)))"
    by (rule requests_coherent)
  moreover from requests_grows [of "Kepler rv vv m" lib pss]
  have "rvec (state_of (requests lib pss (Kepler rv vv m))) = rv"
    "vvec (state_of (requests lib pss (Kepler rv vv m))) = vv"
    "mass (state_of (requests lib pss (Kepler rv vv m))) = m"
    by (simp_all add: grows_def Kepler_def)
  ultimately show ?thesis using assms by (simp add: coherent_def)
qed

lemma derived_values_order_independent:
  assumes "proper a"
    and "num (state_of (requests lib pss1 (Kepler rv vv m))) a = Some x"
    and "num (state_of (requests lib pss2 (Kepler rv vv m))) a = Some y"
  shows "x = y"
  using derived_value_canonical [OF assms(1,2)] derived_value_canonical [OF assms(1,3)] by simp

text \<open>
  A request for proper attributes always returns, on any body and with any
  library: no formula of theirs can throw once the prerequisites are stored.
\<close>

lemma formula_returns:
  assumes "proper a" and "\<forall>p \<in> set (prereqs a). \<not> is_undefined b p"
  shows "\<exists>x. formula lib a b = Inr x"
proof -
  have r: "receiver b k nm = Inr (the (num b k))" if "defined b k" "k \<noteq> Eccvec" for k nm
    using that by (auto simp: receiver_def defined_def)
  show ?thesis
    using assms
    by (cases a) (simp_all add: proper_def has_rule_def on_def r prereq_defined)
qed

lemma attr_of_simps:
  "attr_of ''r'' = Some R" "attr_of ''v'' = Some V" "attr_of ''mu'' = Some Mu"
  "attr_of ''ek'' = Some Ek" "attr_of ''ep'' = Some Ep" "attr_of ''epsilon'' = Some Epsilon"
  "attr_of ''I'' = Some I" "attr_of ''Omega'' = Some BigOmega" "attr_of ''L'' = Some L"
  "attr_of ''h'' = Some H" "attr_of ''a'' = Some A" "attr_of ''b'' = Some B"
  "attr_of ''eccvec'' = Some Eccvec" "attr_of ''ecc'' = Some Ecc" "attr_of ''p'' = Some P"
  "attr_of ''Et'' = Some Et" "attr_of ''ap'' = Some Ap" "attr_of ''pe'' = Some Pe"
  "attr_of ''omega'' = Some SmallOmega" "attr_of ''vt'' = Some Vt"
  by (simp_all add: attr_of_def attr_names_def)

lemma prereqs_proper:
  assumes "proper a" and "p \<in> set (prereqs a)"
  shows "\<exists>k. attr_of p = Some k \<and> proper k"
  using assms
  by (cases a) (auto simp: attr_of_simps proper_simps, simp_all add: proper_def has_rule_def)

lemma proper_request_returns:
  "\<forall>p \<in> set ps. \<not> is_undefined b p \<or> (\<exists>k. attr_of p = Some k \<and> proper k) \<Longrightarrow>
     \<exists>b'. require lib ps b = Done b'"
  and proper_set_returns: "proper a \<Longrightarrow> \<exists>b'. set_attr lib a b = Done b'"
proof (induction lib ps b and lib a b rule: require_set_attr.induct)
  case (1 lib b)
  then show ?case by simp
next
  case (2 lib p ps b)
  show ?case
  proof (cases "is_undefined b p")
    case False
    with "2.IH"(3) [OF False] "2.prems" show ?thesis by simp
  next
    case u: True
    from "2.prems" have "\<not> is_undefined b p \<or> (\<exists>k. attr_of p = Some k \<and> proper k)" by simp
    with u obtain a where a: "attr_of p = Some a" and pa: "proper a" by blast
    from "2.IH"(1) [OF u a pa] obtain b1 where s: "set_attr lib a b = Done b1" by blast
    from u a have "\<not> defined b a" by (simp add: is_undefined_def)
    with set_attr_grows_but [of a b lib] s have g: "grows b b1"
      by (auto intro: grows_but_undefined)
    have "\<forall>q \<in> set ps. \<not> is_undefined b1 q \<or> (\<exists>k. attr_of q = Some k \<and> proper k)"
    proof
      fix q assume "q \<in> set ps"
      with "2.prems" have "\<not> is_undefined b q \<or> (\<exists>k. attr_of q = Some k \<and> proper k)" by simp
      with grows_is_undefined [OF g] show "\<not> is_undefined b1 q \<or> (\<exists>k. attr_of q = Some k \<and> proper k)"
        by blast
    qed
    from "2.IH"(2) [OF u a s this] u a s show ?thesis by simp
  qed
next
  case (3 lib a b)
  from "3.prems" have hr: "has_rule a" by (simp add: proper_def)
  have "\<forall>p \<in> set (prereqs a). \<not> is_undefined (enter a b) p \<or> (\<exists>k. attr_of p = Some k \<and> proper k)"
    using prereqs_proper [OF "3.prems"] by blast
  from "3.IH" [OF hr this] obtain b1 where r: "require lib (prereqs a) (enter a b) = Done b1"
    by blast
  then have "\<forall>p \<in> set (prereqs a). \<not> is_undefined b1 p" by (auto dest: require_defines)
  from formula_returns [OF "3.prems" this, of lib] obtain x where fx: "formula lib a b1 = Inr x"
    by blast
  have ne: "a \<noteq> Eccvec" using "3.prems" by (simp add: proper_def)
  have "set_attr lib a b = assign lib a b1" using hr r by (simp add: set_attr.simps)
  also have "\<dots> = Done (put a x b1)" using fx ne by (simp add: assign_def)
  finally show ?case by blast
qed


section \<open>The round trip through Kepler's equation\<close>

















end
